theory Spec2Isabelle
  imports Complex_Main "HOL-Library.Stream"
begin

section \<open>Data model of api_server.py\<close>

text \<open>
  \<^verbatim>\<open>datetime\<close> values are counted in microseconds (the resolution of Python's
  \<^verbatim>\<open>datetime\<close>), and so is a \<^verbatim>\<open>timedelta\<close>; their arithmetic is exact integer
  arithmetic. \<^verbatim>\<open>CONVERSATION_TIMEOUT = timedelta(hours=24)\<close>.
\<close>

type_synonym datetime = int
type_synonym timedelta = int

definition CONVERSATION_TIMEOUT :: timedelta where
  "CONVERSATION_TIMEOUT = 24 * 60 * 60 * 1000000"

text \<open>The message dictionaries stored in a conversation (class \<^verbatim>\<open>Message\<close>).\<close>

record Message =
  role :: string
  content :: string
  timestamp :: datetime
  images :: "string list option"

text \<open>The dictionary stored under a session id in \<^verbatim>\<open>conversations\<close>.\<close>

record Conversation =
  session_id :: string
  messages :: "Message list"
  created_at :: datetime
  last_activity :: datetime

text \<open>
  Exceptions. Every \<^verbatim>\<open>detail\<close> constructor is one of the (formatted) strings of a
  \<^verbatim>\<open>raise HTTPException(...)\<close> in the source; where the source interpolates
  \<^verbatim>\<open>str(e)\<close> the constructor keeps \<open>e\<close>. \<open>Exception\<close> is an exception of a
  library, with its text.
\<close>

datatype exn =
    HTTPException nat detail
  | Exception string
and detail =
    Conversation_not_found
  | Invalid_image_file exn
  | Ollama_API_error string
  | Request_timeout
  | Generation_error exn
  | No_frames_provided
  | Too_many_frames
  | Error_processing_frame nat exn

text \<open>The JSON body posted to Ollama's \<^verbatim>\<open>/api/generate\<close>; a missing \<^verbatim>\<open>"images"\<close> key is \<open>None\<close>.\<close>

record payload =
  p_model :: string
  p_prompt :: string
  p_stream :: bool
  p_temperature :: "real option"
  p_num_predict :: "int option"
  p_images :: "string list option"

text \<open>
  What \<^verbatim>\<open>client.post\<close> does: it returns a response (status code, text, and what
  \<^verbatim>\<open>response.json()\<close> gives: \<open>Inl\<close> the text of the exception it raises, \<open>Inr\<close> the
  value under \<^verbatim>\<open>"response"\<close> if the key is there), or raises.
\<close>

datatype post_result =
    Response nat string "string + string option"
  | Post_timeout
  | Post_error string

text \<open>
  A PIL image, and an uploaded file as \<^verbatim>\<open>Image.open\<close> sees it: it opens as an image or
  raises an exception with a text.
\<close>

record Image =
  mode :: string
  pixels :: string

datatype UploadFile = Opens Image | Open_fails string

text \<open>
  The collaborators outside the program: PIL's \<^verbatim>\<open>convert\<close>, the PNG encoding
  (\<^verbatim>\<open>image.save\<close>) followed by base64, and the Ollama server. The first two return
  their result (\<open>Inr\<close>) or raise an exception with a text (\<open>Inl\<close>), as
  \<^verbatim>\<open>image.save\<close> does on a truncated file that \<^verbatim>\<open>Image.open\<close> has accepted.
\<close>

record externals =
  convert :: "Image \<Rightarrow> string \<Rightarrow> string + Image"
  png_base64 :: "Image \<Rightarrow> string + string"
  post_generate :: "payload \<Rightarrow> post_result"

text \<open>
  The state of the process and of its environment: the global \<^verbatim>\<open>conversations\<close>, the
  values the next calls of \<^verbatim>\<open>datetime.now()\<close>, \<^verbatim>\<open>str(uuid.uuid4())\<close> and
  \<^verbatim>\<open>time.time()\<close> return, and the bodies posted to Ollama so far.
\<close>

record world =
  conversations :: "string \<rightharpoonup> Conversation"
  datetime_clock :: "datetime stream"
  uuid_source :: "string stream"
  time_clock :: "real stream"
  posted :: "payload list"

definition datetime_now :: "world \<Rightarrow> datetime \<times> world" where
  "datetime_now w = (shd (datetime_clock w), w\<lparr>datetime_clock := stl (datetime_clock w)\<rparr>)"

definition uuid4 :: "world \<Rightarrow> string \<times> world" where
  "uuid4 w = (shd (uuid_source w), w\<lparr>uuid_source := stl (uuid_source w)\<rparr>)"

definition time_time :: "world \<Rightarrow> real \<times> world" where
  "time_time w = (shd (time_clock w), w\<lparr>time_clock := stl (time_clock w)\<rparr>)"

section \<open>The conversation store\<close>

text \<open>The test of the first loop of \<^verbatim>\<open>cleanup_expired_conversations\<close>.\<close>

definition expired :: "datetime \<Rightarrow> Conversation \<Rightarrow> bool" where
  "expired current_time conversation \<longleftrightarrow>
     current_time - last_activity conversation > CONVERSATION_TIMEOUT"

text \<open>The first loop collects the ids of the expired entries, the second deletes them.\<close>

definition expired_sessions :: "datetime \<Rightarrow> (string \<rightharpoonup> Conversation) \<Rightarrow> string set" where
  "expired_sessions current_time cs =
     {sid. case cs sid of None \<Rightarrow> False | Some conversation \<Rightarrow> expired current_time conversation}"

definition cleanup_expired_conversations :: "world \<Rightarrow> world" where
  "cleanup_expired_conversations w =
     (let (current_time, w1) = datetime_now w
      in w1\<lparr>conversations :=
              conversations w1 |` (- expired_sessions current_time (conversations w1))\<rparr>)"

text \<open>The block under \<^verbatim>\<open># Create new conversation\<close>: the clock is read twice.\<close>

definition create_conversation :: "world \<Rightarrow> string \<times> world" where
  "create_conversation w =
     (let (new_session_id, w1) = uuid4 w;
          (t_created, w2) = datetime_now w1;
          (t_active, w3) = datetime_now w2
      in (new_session_id,
          w3\<lparr>conversations := (conversations w3)(new_session_id \<mapsto>
                \<lparr>session_id = new_session_id, messages = [],
                 created_at = t_created, last_activity = t_active\<rparr>)\<rparr>))"

text \<open>
  \<^verbatim>\<open>if session_id and session_id in conversations\<close>: \<^verbatim>\<open>None\<close> and the empty string are
  falsy.
\<close>

definition get_or_create_conversation :: "world \<Rightarrow> string option \<Rightarrow> string \<times> world" where
  "get_or_create_conversation w0 sid_opt =
     (let w = cleanup_expired_conversations w0
      in case sid_opt of
           None \<Rightarrow> create_conversation w
         | Some sid \<Rightarrow>
             if sid = [] then create_conversation w
             else (case conversations w sid of
                     None \<Rightarrow> create_conversation w
                   | Some conversation \<Rightarrow>
                       let (t, w1) = datetime_now w
                       in (sid, w1\<lparr>conversations := (conversations w1)(sid \<mapsto>
                                    conversation\<lparr>last_activity := t\<rparr>)\<rparr>)))"

definition add_message_to_conversation ::
  "world \<Rightarrow> string \<Rightarrow> string \<Rightarrow> string \<Rightarrow> string list option \<Rightarrow> world" where
  "add_message_to_conversation w sid role_arg content_arg images_arg =
     (case conversations w sid of
        None \<Rightarrow> w
      | Some conversation \<Rightarrow>
          let (t_message, w1) = datetime_now w;
              message = \<lparr>role = role_arg, content = content_arg,
                         timestamp = t_message, images = images_arg\<rparr>;
              (t_active, w2) = datetime_now w1
          in w2\<lparr>conversations := (conversations w2)(sid \<mapsto>
                  conversation\<lparr>messages := messages conversation @ [message],
                               last_activity := t_active\<rparr>)\<rparr>)"

text \<open>The answer of \<^verbatim>\<open>GET /api/conversation/{session_id}\<close> (class \<^verbatim>\<open>ConversationResponse\<close>).\<close>

record ConversationResponse =
  cr_session_id :: string
  cr_messages :: "Message list"
  total_messages :: nat

definition get_conversation :: "world \<Rightarrow> string \<Rightarrow> exn + ConversationResponse" where
  "get_conversation w sid =
     (case conversations w sid of
        None \<Rightarrow> Inl (HTTPException 404 Conversation_not_found)
      | Some conversation \<Rightarrow>
          Inr \<lparr>cr_session_id = sid, cr_messages = messages conversation,
               total_messages = length (messages conversation)\<rparr>)"

text \<open>\<^verbatim>\<open>DELETE /api/conversation/{session_id}\<close>; the answer is the message text.\<close>

definition delete_conversation :: "world \<Rightarrow> string \<Rightarrow> (exn + string) \<times> world" where
  "delete_conversation w sid =
     (case conversations w sid of
        None \<Rightarrow> (Inl (HTTPException 404 Conversation_not_found), w)
      | Some conversation \<Rightarrow>
          (Inr (''Conversation '' @ sid @ '' deleted''),
           w\<lparr>conversations := (conversations w)(sid := None)\<rparr>))"

section \<open>The context builder\<close>

text \<open>Python's \<^verbatim>\<open>sep.join(parts)\<close>.\<close>

fun join :: "string \<Rightarrow> string list \<Rightarrow> string" where
  "join sep [] = []"
| "join sep [part] = part"
| "join sep (part # next_part # parts) = part @ sep @ join sep (next_part # parts)"

text \<open>\<^verbatim>\<open>msg.get("images")\<close> as a condition: \<^verbatim>\<open>None\<close> and the empty list are falsy.\<close>

definition truthy :: "'a list option \<Rightarrow> bool" where
  "truthy v = (case v of None \<Rightarrow> False | Some xs \<Rightarrow> xs \<noteq> [])"

text \<open>The body of the loop over \<^verbatim>\<open>recent_messages\<close>: the string appended for one message.\<close>

definition context_part :: "Message \<Rightarrow> string" where
  "context_part msg =
     (let role_name = (if role msg = ''user'' then ''Human'' else ''Assistant'')
      in if truthy (images msg)
         then role_name @ '': '' @ content msg @ '' [with image(s)]''
         else role_name @ '': '' @ content msg)"

fun append_recent :: "Message list \<Rightarrow> string list \<Rightarrow> string list" where
  "append_recent [] context_parts = context_parts"
| "append_recent (msg # recent_messages) context_parts =
     append_recent recent_messages (context_parts @ [context_part msg])"

definition preamble :: string where
  "preamble = ''This is a conversation. Here'' @ [CHR 0x27] @ ''s the conversation history:''"

definition build_conversation_context ::
  "world \<Rightarrow> string \<Rightarrow> string \<Rightarrow> string list option \<Rightarrow> string \<times> string list option" where
  "build_conversation_context w sid current_prompt current_images =
     (case conversations w sid of
        None \<Rightarrow> (current_prompt, current_images)
      | Some conversation \<Rightarrow>
          let msgs = messages conversation
          in if msgs = [] then (current_prompt, current_images)
             else
               let context_parts = [preamble];
                   recent_messages =
                     (if length msgs > 10 then drop (length msgs - 10) msgs else msgs);
                   context_parts = append_recent recent_messages context_parts;
                   context_parts = context_parts @ [''Human: '' @ current_prompt];
                   context_parts = context_parts @ [''Assistant:''];
                   full_context = join [CHR 0x0A, CHR 0x0A] context_parts
               in (full_context, current_images))"

section \<open>Images and the generation backend\<close>

text \<open>\<^verbatim>\<open>image_to_base64\<close> has no \<^verbatim>\<open>try\<close>: what the encoding raises, it raises.\<close>

definition image_to_base64 :: "externals \<Rightarrow> Image \<Rightarrow> exn + string" where
  "image_to_base64 ext img =
     (case png_base64 ext img of
        Inl msg \<Rightarrow> Inl (Exception msg)
      | Inr image_b64 \<Rightarrow> Inr image_b64)"

text \<open>
  \<^verbatim>\<open>process_uploaded_file\<close>: \<^verbatim>\<open>Image.open\<close> and \<^verbatim>\<open>convert\<close> are both inside the
  \<^verbatim>\<open>try\<close>, whatever they raise becomes the 400 exception.
\<close>

definition process_uploaded_file :: "externals \<Rightarrow> UploadFile \<Rightarrow> exn + Image" where
  "process_uploaded_file ext file =
     (case file of
        Open_fails msg \<Rightarrow> Inl (HTTPException 400 (Invalid_image_file (Exception msg)))
      | Opens img \<Rightarrow>
          if mode img \<noteq> ''RGB'' then
            (case convert ext img ''RGB'' of
               Inl msg \<Rightarrow> Inl (HTTPException 400 (Invalid_image_file (Exception msg)))
             | Inr converted \<Rightarrow> Inr converted)
          else Inr img)"

definition MODEL_NAME :: string where
  "MODEL_NAME = ''bakllava''"

text \<open>
  \<^verbatim>\<open>generate_response\<close>: the body is posted (and recorded in \<open>posted\<close>). The
  \<^verbatim>\<open>HTTPException\<close> raised for a status other than 200 is raised inside the
  \<^verbatim>\<open>try\<close>, so the last \<^verbatim>\<open>except Exception\<close> wraps it again.
\<close>

definition generate_response ::
  "externals \<Rightarrow> world \<Rightarrow> string \<Rightarrow> string list option \<Rightarrow> real option \<Rightarrow> int option
     \<Rightarrow> (exn + string) \<times> world" where
  "generate_response ext w prompt_arg images_arg temperature_arg max_tokens_arg =
     (let body = \<lparr>p_model = MODEL_NAME, p_prompt = prompt_arg, p_stream = False,
                  p_temperature = temperature_arg, p_num_predict = max_tokens_arg,
                  p_images = (if truthy images_arg then images_arg else None)\<rparr>;
          w1 = w\<lparr>posted := posted w @ [body]\<rparr>
      in case post_generate ext body of
           Post_timeout \<Rightarrow> (Inl (HTTPException 504 Request_timeout), w1)
         | Post_error msg \<Rightarrow> (Inl (HTTPException 500 (Generation_error (Exception msg))), w1)
         | Response status_code body_text json \<Rightarrow>
             if status_code = 200 then
               (case json of
                  Inl msg \<Rightarrow> (Inl (HTTPException 500 (Generation_error (Exception msg))), w1)
                | Inr None \<Rightarrow> (Inr ''No response generated'', w1)
                | Inr (Some response_text) \<Rightarrow> (Inr response_text, w1))
             else
               (Inl (HTTPException 500 (Generation_error
                       (HTTPException status_code (Ollama_API_error body_text)))), w1))"

section \<open>The request handlers\<close>

record TextPromptRequest =
  prompt :: string
  temperature :: "real option"
  max_tokens :: "int option"
  req_session_id :: "string option"

text \<open>
  Class \<^verbatim>\<open>APIResponse\<close>. The field \<open>error\<close> holds the exception \<open>e\<close> whose text
  \<^verbatim>\<open>str(e)\<close> the source stores; \<open>api_session_id\<close> is its \<^verbatim>\<open>session_id\<close>.
\<close>

record APIResponse =
  success :: bool
  response :: "string option"
  error :: "exn option"
  processing_time :: "real option"
  api_session_id :: "string option"

text \<open>The \<^verbatim>\<open>except Exception as e\<close> block shared by the three handlers.\<close>

definition failure_response ::
  "world \<Rightarrow> real \<Rightarrow> exn \<Rightarrow> string option \<Rightarrow> APIResponse \<times> world" where
  "failure_response w start_time e sid_field =
     (let (end_time, w1) = time_time w
      in (\<lparr>success = False, response = None, error = Some e,
           processing_time = Some (end_time - start_time), api_session_id = sid_field\<rparr>, w1))"

text \<open>The end of the \<^verbatim>\<open>try\<close> block shared by the three handlers, after the backend answered.\<close>

definition success_response ::
  "world \<Rightarrow> real \<Rightarrow> string \<Rightarrow> string \<Rightarrow> APIResponse \<times> world" where
  "success_response w start_time sid response_text =
     (let w1 = add_message_to_conversation w sid ''assistant'' response_text None;
          (end_time, w2) = time_time w1
      in (\<lparr>success = True, response = Some response_text, error = None,
           processing_time = Some (end_time - start_time), api_session_id = Some sid\<rparr>, w2))"

text \<open>
  \<^verbatim>\<open>text_prompt\<close>: the \<^verbatim>\<open>except\<close> block answers with \<^verbatim>\<open>request.session_id\<close>, the id
  of the request.
\<close>

definition text_prompt :: "externals \<Rightarrow> world \<Rightarrow> TextPromptRequest \<Rightarrow> APIResponse \<times> world" where
  "text_prompt ext w0 request =
     (let (start_time, w1) = time_time w0;
          (sid, w2) = get_or_create_conversation w1 (req_session_id request);
          (context_prompt, unused) = build_conversation_context w2 sid (prompt request) None;
          w3 = add_message_to_conversation w2 sid ''user'' (prompt request) None;
          (result, w4) = generate_response ext w3 context_prompt None
                           (temperature request) (max_tokens request)
      in case result of
           Inr response_text \<Rightarrow> success_response w4 start_time sid response_text
         | Inl e \<Rightarrow> failure_response w4 start_time e (req_session_id request))"

text \<open>
  \<^verbatim>\<open>image_prompt\<close>: the parameter \<^verbatim>\<open>session_id\<close> is overwritten by the resolved id, which
  the \<^verbatim>\<open>except\<close> block then answers with.
\<close>

definition image_prompt ::
  "externals \<Rightarrow> world \<Rightarrow> string \<Rightarrow> real \<Rightarrow> int \<Rightarrow> string option \<Rightarrow> UploadFile
     \<Rightarrow> APIResponse \<times> world" where
  "image_prompt ext w0 prompt_arg temperature_arg max_tokens_arg sid_opt upload =
     (let (start_time, w1) = time_time w0;
          (sid, w2) = get_or_create_conversation w1 sid_opt
      in case process_uploaded_file ext upload of
           Inl e \<Rightarrow> failure_response w2 start_time e (Some sid)
         | Inr pil_image \<Rightarrow>
             (case image_to_base64 ext pil_image of
                Inl e \<Rightarrow> failure_response w2 start_time e (Some sid)
              | Inr image_b64 \<Rightarrow>
                  (let (context_prompt, context_images) =
                         build_conversation_context w2 sid prompt_arg (Some [image_b64]);
                       w3 = add_message_to_conversation w2 sid ''user'' prompt_arg
                              (Some [image_b64]);
                       (result, w4) = generate_response ext w3 context_prompt context_images
                                        (Some temperature_arg) (Some max_tokens_arg)
                   in (case result of
                         Inr response_text \<Rightarrow>
                           success_response w4 start_time sid response_text
                       | Inl e \<Rightarrow> failure_response w4 start_time e (Some sid)))))"

text \<open>The decimal text of a natural number (\<^verbatim>\<open>len(frames)\<close> in the f-string).\<close>

fun str_nat :: "nat \<Rightarrow> string" where
  "str_nat n =
     (if n < 10 then [''0123456789'' ! n]
      else str_nat (n div 10) @ [''0123456789'' ! (n mod 10)])"

declare str_nat.simps [simp del]

text \<open>
  The loop over \<^verbatim>\<open>enumerate(frames)\<close>: \<open>i\<close> is the index, the last argument
  \<^verbatim>\<open>image_b64_list\<close>. Whatever the body raises, in \<^verbatim>\<open>process_uploaded_file\<close> or in
  \<^verbatim>\<open>image_to_base64\<close>, is raised again with the 1-based index.
\<close>

fun process_frames ::
  "externals \<Rightarrow> nat \<Rightarrow> UploadFile list \<Rightarrow> string list \<Rightarrow> exn + string list" where
  "process_frames ext i [] image_b64_list = Inr image_b64_list"
| "process_frames ext i (frame # frames) image_b64_list =
     (case process_uploaded_file ext frame of
        Inl e \<Rightarrow> Inl (HTTPException 400 (Error_processing_frame (i + 1) e))
      | Inr pil_image \<Rightarrow>
          (case image_to_base64 ext pil_image of
             Inl e \<Rightarrow> Inl (HTTPException 400 (Error_processing_frame (i + 1) e))
           | Inr image_b64 \<Rightarrow>
               process_frames ext (i + 1) frames (image_b64_list @ [image_b64])))"

text \<open>The two checks at the head of \<^verbatim>\<open>video_frames_prompt\<close>.\<close>

definition check_frames :: "UploadFile list \<Rightarrow> exn option" where
  "check_frames frames =
     (if frames = [] then Some (HTTPException 400 No_frames_provided)
      else if length frames > 30 then Some (HTTPException 400 Too_many_frames)
      else None)"

text \<open>
  \<^verbatim>\<open>video_frames_prompt\<close>; \<open>frame_rate\<close> is the text the f-string prints for the float.
  Before \<^verbatim>\<open>get_or_create_conversation\<close> the variable \<^verbatim>\<open>session_id\<close> is still the
  id of the request.
\<close>

definition video_frames_prompt ::
  "externals \<Rightarrow> world \<Rightarrow> string \<Rightarrow> string \<Rightarrow> real \<Rightarrow> int \<Rightarrow> string option \<Rightarrow> UploadFile list
     \<Rightarrow> APIResponse \<times> world" where
  "video_frames_prompt ext w0 prompt_arg frame_rate temperature_arg max_tokens_arg sid_opt frames =
     (let (start_time, w1) = time_time w0
      in case check_frames frames of
           Some e \<Rightarrow> failure_response w1 start_time e sid_opt
         | None \<Rightarrow>
             (let (sid, w2) = get_or_create_conversation w1 sid_opt
              in (case process_frames ext 0 frames [] of
                  Inl e \<Rightarrow> failure_response w2 start_time e (Some sid)
                | Inr image_b64_list \<Rightarrow>
                    (let enhanced_prompt =
                          prompt_arg @ [CHR 0x0A, CHR 0x0A] @ ''This is a sequence of ''
                          @ str_nat (length frames) @ '' video frames captured at ''
                          @ frame_rate @ '' frame(s) per second.'';
                        (context_prompt, context_images) =
                          build_conversation_context w2 sid enhanced_prompt (Some image_b64_list);
                        w3 = add_message_to_conversation w2 sid ''user'' enhanced_prompt
                               (Some image_b64_list);
                        (result, w4) = generate_response ext w3 context_prompt context_images
                                         (Some temperature_arg) (Some max_tokens_arg)
                     in (case result of
                           Inr response_text \<Rightarrow> success_response w4 start_time sid response_text
                         | Inl e \<Rightarrow> failure_response w4 start_time e (Some sid))))))"

section \<open>Sequences of calls, the specification's rendering, sample states\<close>

text \<open>
  A sequence of \<^verbatim>\<open>add_message_to_conversation\<close> calls on one session, each turn given as
  (role, content, images).
\<close>

fun add_messages :: "world \<Rightarrow> string \<Rightarrow> (string \<times> string \<times> string list option) list \<Rightarrow> world" where
  "add_messages w sid [] = w"
| "add_messages w sid ((r, c, ims) # turns) =
     add_messages (add_message_to_conversation w sid r c ims) sid turns"

text \<open>
  The turns as messages: every call reads the clock twice, the first reading is the
  message's timestamp.
\<close>

fun stamped :: "datetime stream \<Rightarrow> (string \<times> string \<times> string list option) list \<Rightarrow> Message list" where
  "stamped clock [] = []"
| "stamped clock ((r, c, ims) # turns) =
     \<lparr>role = r, content = c, timestamp = shd clock, images = ims\<rparr>
       # stamped (stl (stl clock)) turns"

text \<open>
  The rendering in the words of the specification: the last \<open>min 10 n\<close> turns, oldest
  first; one line for each, with the marker when the turn carried images; the preamble
  before them, the new text and the cue after them; a blank line between sections.
\<close>

definition spec_window :: "Message list \<Rightarrow> Message list" where
  "spec_window turns = rev (take (min 10 (length turns)) (rev turns))"

definition spec_line :: "Message \<Rightarrow> string" where
  "spec_line turn =
     (if role turn = ''user'' then ''Human'' else ''Assistant'') @ '': '' @ content turn
       @ (if images turn \<noteq> None \<and> images turn \<noteq> Some [] then '' [with image(s)]'' else [])"

definition blank_line_separated :: "string list \<Rightarrow> string" where
  "blank_line_separated sections =
     (case sections of
        [] \<Rightarrow> []
      | first_section # rest \<Rightarrow>
          first_section @ concat (map (\<lambda>s. [CHR 0x0A, CHR 0x0A] @ s) rest))"

definition spec_render :: "Message list \<Rightarrow> string \<Rightarrow> string" where
  "spec_render turns new_text =
     blank_line_separated
       ([preamble] @ map spec_line (spec_window turns)
          @ [''Human: '' @ new_text] @ [''Assistant:''])"

text \<open>
  Sample states: one stored session \<open>''s1''\<close>, last active at 0, holding one user turn; a
  clock that starts at \<open>t0\<close> and advances by one microsecond at every reading.
\<close>

definition sample_message :: Message where
  "sample_message = \<lparr>role = ''user'', content = ''hello'', timestamp = 0, images = None\<rparr>"

definition sample_world :: "datetime \<Rightarrow> world" where
  "sample_world t0 =
     \<lparr>conversations =
        [''s1'' \<mapsto> \<lparr>session_id = ''s1'', messages = [sample_message],
                     created_at = 0, last_activity = 0\<rparr>],
      datetime_clock = siterate (\<lambda>t. t + 1) t0,
      uuid_source = siterate (\<lambda>s. CHR ''u'' # s) ''u1'',
      time_clock = siterate (\<lambda>t. t + 1) 0,
      posted = []\<rparr>"

text \<open>
  Sample collaborators: the Ollama server answers every request with \<open>r\<close>; an image
  without pixel data does not encode.
\<close>

definition sample_ext :: "post_result \<Rightarrow> externals" where
  "sample_ext r =
     \<lparr>convert = (\<lambda>img m. Inr (img\<lparr>mode := m\<rparr>)),
      png_base64 = (\<lambda>img. if pixels img = [] then Inl ''image file is truncated''
                          else Inr (pixels img)),
      post_generate = (\<lambda>body. r)\<rparr>"

definition sample_image :: Image where
  "sample_image = \<lparr>mode = ''RGB'', pixels = ''px''\<rparr>"

definition truncated_image :: Image where
  "truncated_image = \<lparr>mode = ''RGB'', pixels = []\<rparr>"

text \<open>
  A state whose session \<open>''s1''\<close> holds eleven messages, the last one with an image.
\<close>

definition first_message :: Message where
  "first_message = \<lparr>role = ''user'', content = ''first'', timestamp = 0, images = None\<rparr>"

definition pictured_message :: Message where
  "pictured_message =
     \<lparr>role = ''assistant'', content = ''a cat'', timestamp = 0, images = Some [''aW1n'']\<rparr>"

definition long_history :: "Message list" where
  "long_history =
     [first_message, sample_message, sample_message, sample_message, sample_message,
      sample_message, sample_message, sample_message, sample_message, sample_message,
      pictured_message]"

definition long_world :: world where
  "long_world =
     (sample_world 5)\<lparr>conversations :=
        [''s1'' \<mapsto> \<lparr>session_id = ''s1'', messages = long_history,
                     created_at = 0, last_activity = 0\<rparr>]\<rparr>"

section \<open>Effects of the store operations\<close>

lemma datetime_now_simps:
  "fst (datetime_now w) = shd (datetime_clock w)"
  "conversations (snd (datetime_now w)) = conversations w"
  "datetime_clock (snd (datetime_now w)) = stl (datetime_clock w)"
  "uuid_source (snd (datetime_now w)) = uuid_source w"
  "time_clock (snd (datetime_now w)) = time_clock w"
  "posted (snd (datetime_now w)) = posted w"
  by (simp_all add: datetime_now_def)

lemma cleanup_conversations:
  "conversations (cleanup_expired_conversations w) sid =
     (case conversations w sid of
        None \<Rightarrow> None
      | Some c \<Rightarrow> if expired (shd (datetime_clock w)) c then None else Some c)"
  by (simp add: cleanup_expired_conversations_def datetime_now_def expired_sessions_def
        restrict_map_def split: option.splits)

lemma cleanup_rest:
  "datetime_clock (cleanup_expired_conversations w) = stl (datetime_clock w)"
  "uuid_source (cleanup_expired_conversations w) = uuid_source w"
  "time_clock (cleanup_expired_conversations w) = time_clock w"
  "posted (cleanup_expired_conversations w) = posted w"
  by (simp_all add: cleanup_expired_conversations_def datetime_now_def)

lemma create_conversation_fst: "fst (create_conversation w) = shd (uuid_source w)"
  by (simp add: create_conversation_def uuid4_def datetime_now_def)

lemma create_conversation_conversations:
  "conversations (snd (create_conversation w)) =
     (conversations w)(shd (uuid_source w) \<mapsto>
        \<lparr>session_id = shd (uuid_source w), messages = [],
         created_at = shd (datetime_clock w), last_activity = shd (stl (datetime_clock w))\<rparr>)"
  by (simp add: create_conversation_def uuid4_def datetime_now_def)

lemma create_conversation_rest:
  "datetime_clock (snd (create_conversation w)) = stl (stl (datetime_clock w))"
  "uuid_source (snd (create_conversation w)) = stl (uuid_source w)"
  "time_clock (snd (create_conversation w)) = time_clock w"
  "posted (snd (create_conversation w)) = posted w"
  by (simp_all add: create_conversation_def uuid4_def datetime_now_def)

lemma add_message_conversations:
  "conversations (add_message_to_conversation w sid r c ims) =
     (case conversations w sid of
        None \<Rightarrow> conversations w
      | Some conv \<Rightarrow> (conversations w)(sid \<mapsto>
          conv\<lparr>messages := messages conv @
                   [\<lparr>role = r, content = c, timestamp = shd (datetime_clock w), images = ims\<rparr>],
               last_activity := shd (stl (datetime_clock w))\<rparr>))"
  by (simp add: add_message_to_conversation_def datetime_now_def split: option.splits)

lemma add_message_rest:
  "datetime_clock (add_message_to_conversation w sid r c ims) =
     (if conversations w sid = None then datetime_clock w else stl (stl (datetime_clock w)))"
  "uuid_source (add_message_to_conversation w sid r c ims) = uuid_source w"
  "time_clock (add_message_to_conversation w sid r c ims) = time_clock w"
  "posted (add_message_to_conversation w sid r c ims) = posted w"
  by (simp_all add: add_message_to_conversation_def datetime_now_def split: option.splits)


lemma get_or_create_time_clock:
  "time_clock (snd (get_or_create_conversation w sid_opt)) = time_clock w"
  by (simp add: get_or_create_conversation_def Let_def cleanup_rest create_conversation_rest
        datetime_now_def split: option.splits)

lemma get_or_create_create:
  assumes "case sid_opt of None \<Rightarrow> True
           | Some s \<Rightarrow> s = [] \<or> (case conversations w s of None \<Rightarrow> True
                                   | Some c \<Rightarrow> expired (shd (datetime_clock w)) c)"
  shows "get_or_create_conversation w sid_opt =
           create_conversation (cleanup_expired_conversations w)"
  using assms
  by (auto simp: get_or_create_conversation_def Let_def cleanup_conversations
        split: option.splits)

lemma get_or_create_refresh:
  assumes "sid \<noteq> []" and "conversations w sid = Some c"
      and "\<not> expired (shd (datetime_clock w)) c"
  shows "fst (get_or_create_conversation w (Some sid)) = sid"
    and "conversations (snd (get_or_create_conversation w (Some sid))) =
           (conversations (cleanup_expired_conversations w))(sid \<mapsto>
              c\<lparr>last_activity := shd (stl (datetime_clock w))\<rparr>)"
  using assms
  by (simp_all add: get_or_create_conversation_def Let_def cleanup_conversations
        cleanup_rest datetime_now_def)

lemma sample_world_simps:
  "conversations (sample_world t0) =
     [''s1'' \<mapsto> \<lparr>session_id = ''s1'', messages = [sample_message],
                  created_at = 0, last_activity = 0\<rparr>]"
  "datetime_clock (sample_world t0) = siterate (\<lambda>t. t + 1) t0"
  "uuid_source (sample_world t0) = siterate (\<lambda>s. CHR ''u'' # s) ''u1''"
  "time_clock (sample_world t0) = siterate (\<lambda>t. t + 1) 0"
  "posted (sample_world t0) = []"
  by (simp_all add: sample_world_def)

section \<open>Expiry and lookups\<close>

text \<open>
  C1, as the code has it: a session whose idle time at the next reading of the clock
  exceeds the timeout and that is still stored is returned by \<open>get_conversation\<close>,
  which only tests that the id is a key. \<open>get_or_create_conversation\<close> called with
  its id sweeps it and returns the id drawn from \<open>uuid4\<close>, under which it stores an
  empty session; when that id differs from the old one, a later
  \<open>get_conversation\<close> on the old id answers 404.
\<close>

theorem expired_unswept_lookup:
  assumes "conversations w sid = Some c" and "expired (shd (datetime_clock w)) c"
  shows "get_conversation w sid =
           Inr \<lparr>cr_session_id = sid, cr_messages = messages c,
                total_messages = length (messages c)\<rparr>
         \<and> fst (get_or_create_conversation w (Some sid)) = shd (uuid_source w)
         \<and> conversations (snd (get_or_create_conversation w (Some sid))) (shd (uuid_source w)) =
             Some \<lparr>session_id = shd (uuid_source w), messages = [],
                   created_at = shd (stl (datetime_clock w)),
                   last_activity = shd (stl (stl (datetime_clock w)))\<rparr>
         \<and> (shd (uuid_source w) \<noteq> sid \<longrightarrow>
              get_conversation (snd (get_or_create_conversation w (Some sid))) sid =
                Inl (HTTPException 404 Conversation_not_found))"
proof -
  have create: "get_or_create_conversation w (Some sid) =
                  create_conversation (cleanup_expired_conversations w)"
    using assms by (intro get_or_create_create) simp
  have swept: "conversations (cleanup_expired_conversations w) sid = None"
    using assms by (simp add: cleanup_conversations)
  have "get_conversation w sid =
          Inr \<lparr>cr_session_id = sid, cr_messages = messages c,
               total_messages = length (messages c)\<rparr>"
    using assms(1) by (simp add: get_conversation_def)
  moreover have "fst (get_or_create_conversation w (Some sid)) = shd (uuid_source w)"
    by (simp add: create create_conversation_fst cleanup_rest)
  moreover have "conversations (snd (get_or_create_conversation w (Some sid))) (shd (uuid_source w)) =
             Some \<lparr>session_id = shd (uuid_source w), messages = [],
                   created_at = shd (stl (datetime_clock w)),
                   last_activity = shd (stl (stl (datetime_clock w)))\<rparr>"
    by (simp add: create create_conversation_conversations cleanup_rest)
  moreover have "shd (uuid_source w) \<noteq> sid \<longrightarrow>
              get_conversation (snd (get_or_create_conversation w (Some sid))) sid =
                Inl (HTTPException 404 Conversation_not_found)"
    using swept
    by (simp add: create create_conversation_conversations cleanup_rest get_conversation_def)
  ultimately show ?thesis by blast
qed

theorem expired_unswept_lookup_witness:
  "conversations (sample_world 86400000001) ''s1'' =
     Some \<lparr>session_id = ''s1'', messages = [sample_message], created_at = 0, last_activity = 0\<rparr>
   \<and> expired (shd (datetime_clock (sample_world 86400000001)))
        \<lparr>session_id = ''s1'', messages = [sample_message], created_at = 0, last_activity = 0\<rparr>
   \<and> get_conversation (sample_world 86400000001) ''s1'' =
        Inr \<lparr>cr_session_id = ''s1'', cr_messages = [sample_message], total_messages = 1\<rparr>
   \<and> fst (get_or_create_conversation (sample_world 86400000001) (Some ''s1'')) = ''u1''
   \<and> get_conversation (snd (get_or_create_conversation (sample_world 86400000001) (Some ''s1'')))
        ''s1'' = Inl (HTTPException 404 Conversation_not_found)"
proof -
  have stored: "conversations (sample_world 86400000001) ''s1'' =
     Some \<lparr>session_id = ''s1'', messages = [sample_message], created_at = 0, last_activity = 0\<rparr>"
    by (simp add: sample_world_simps)
  have stale: "expired (shd (datetime_clock (sample_world 86400000001)))
        \<lparr>session_id = ''s1'', messages = [sample_message], created_at = 0, last_activity = 0\<rparr>"
    by (simp add: sample_world_simps expired_def CONVERSATION_TIMEOUT_def)
  show ?thesis
    using stored stale expired_unswept_lookup [OF stored stale]
    by (simp add: sample_world_simps)
qed

theorem get_of_expired_counterexample:
  "conversations (sample_world 86400000001) ''s1'' =
     Some \<lparr>session_id = ''s1'', messages = [sample_message], created_at = 0, last_activity = 0\<rparr>
   \<and> expired 86400000001
        \<lparr>session_id = ''s1'', messages = [sample_message], created_at = 0, last_activity = 0\<rparr>
   \<and> shd (datetime_clock (sample_world 86400000001)) = 86400000001
   \<and> get_conversation (sample_world 86400000001) ''s1'' \<noteq>
        Inl (HTTPException 404 Conversation_not_found)"
  by (simp add: sample_world_simps expired_def CONVERSATION_TIMEOUT_def get_conversation_def)

text \<open>
  C10: \<open>delete_conversation\<close> on a session that is expired at the next reading of the
  clock and still stored answers with the deletion message, not with 404, and removes
  the entry; it does not read the clock.
\<close>

theorem delete_ignores_expiry:
  assumes "conversations w sid = Some c" and "expired (shd (datetime_clock w)) c"
  shows "fst (delete_conversation w sid) = Inr (''Conversation '' @ sid @ '' deleted'')
         \<and> fst (delete_conversation w sid) \<noteq> Inl (HTTPException 404 Conversation_not_found)
         \<and> conversations (snd (delete_conversation w sid)) = (conversations w)(sid := None)
         \<and> datetime_clock (snd (delete_conversation w sid)) = datetime_clock w"
  using assms(1) by (simp add: delete_conversation_def)

theorem delete_ignores_expiry_witness:
  "conversations (sample_world 86400000001) ''s1'' =
     Some \<lparr>session_id = ''s1'', messages = [sample_message], created_at = 0, last_activity = 0\<rparr>
   \<and> expired (shd (datetime_clock (sample_world 86400000001)))
        \<lparr>session_id = ''s1'', messages = [sample_message], created_at = 0, last_activity = 0\<rparr>
   \<and> fst (delete_conversation (sample_world 86400000001) ''s1'') = Inr ''Conversation s1 deleted''
   \<and> conversations (snd (delete_conversation (sample_world 86400000001) ''s1'')) ''s1'' = None"
proof -
  have stored: "conversations (sample_world 86400000001) ''s1'' =
     Some \<lparr>session_id = ''s1'', messages = [sample_message], created_at = 0, last_activity = 0\<rparr>"
    by (simp add: sample_world_simps)
  have stale: "expired (shd (datetime_clock (sample_world 86400000001)))
        \<lparr>session_id = ''s1'', messages = [sample_message], created_at = 0, last_activity = 0\<rparr>"
    by (simp add: sample_world_simps expired_def CONVERSATION_TIMEOUT_def)
  show ?thesis
    using stored stale delete_ignores_expiry [OF stored stale]
    by simp
qed

section \<open>Resolving a session id\<close>

text \<open>
  C5, as the code has it: with the id of a stored session that is not the empty string
  and not expired at the sweep's reading of the clock, \<open>get_or_create_conversation\<close>
  returns the id and sets the session's \<open>last_activity\<close> to the next reading, leaving
  the rest of the session as it is. With \<open>None\<close>, the empty string, an id that is not
  stored or the id of an expired session, it returns the id drawn from \<open>uuid4\<close> and
  stores under it a session without messages whose \<open>created_at\<close> and
  \<open>last_activity\<close> are the two readings of the clock that follow the sweep's, in this
  order. The function has no error result.
\<close>

theorem get_or_create_conversation_cases:
  "(sid \<noteq> [] \<and> conversations w sid = Some c \<and> \<not> expired (shd (datetime_clock w)) c \<longrightarrow>
      fst (get_or_create_conversation w (Some sid)) = sid
      \<and> conversations (snd (get_or_create_conversation w (Some sid))) sid =
          Some (c\<lparr>last_activity := shd (stl (datetime_clock w))\<rparr>))
   \<and> ((case sid_opt of
          None \<Rightarrow> True
        | Some s \<Rightarrow> s = [] \<or> (case conversations w s of
                                  None \<Rightarrow> True
                                | Some c' \<Rightarrow> expired (shd (datetime_clock w)) c')) \<longrightarrow>
      fst (get_or_create_conversation w sid_opt) = shd (uuid_source w)
      \<and> conversations (snd (get_or_create_conversation w sid_opt)) (shd (uuid_source w)) =
          Some \<lparr>session_id = shd (uuid_source w), messages = [],
                created_at = shd (stl (datetime_clock w)),
                last_activity = shd (stl (stl (datetime_clock w)))\<rparr>)"
proof (intro conjI impI)
  assume live: "sid \<noteq> [] \<and> conversations w sid = Some c
                \<and> \<not> expired (shd (datetime_clock w)) c"
  then show "fst (get_or_create_conversation w (Some sid)) = sid"
    by (simp add: get_or_create_refresh(1))
  from live show "conversations (snd (get_or_create_conversation w (Some sid))) sid =
          Some (c\<lparr>last_activity := shd (stl (datetime_clock w))\<rparr>)"
    by (simp add: get_or_create_refresh(2))
next
  assume other: "case sid_opt of
          None \<Rightarrow> True
        | Some s \<Rightarrow> s = [] \<or> (case conversations w s of
                                  None \<Rightarrow> True
                                | Some c' \<Rightarrow> expired (shd (datetime_clock w)) c')"
  then have create: "get_or_create_conversation w sid_opt =
                       create_conversation (cleanup_expired_conversations w)"
    by (rule get_or_create_create)
  show "fst (get_or_create_conversation w sid_opt) = shd (uuid_source w)"
    by (simp add: create create_conversation_fst cleanup_rest)
  show "conversations (snd (get_or_create_conversation w sid_opt)) (shd (uuid_source w)) =
          Some \<lparr>session_id = shd (uuid_source w), messages = [],
                created_at = shd (stl (datetime_clock w)),
                last_activity = shd (stl (stl (datetime_clock w)))\<rparr>"
    by (simp add: create create_conversation_conversations cleanup_rest)
qed

theorem get_or_create_conversation_cases_witness:
  "(''s1'' \<noteq> [] \<and> conversations (sample_world 5) ''s1'' =
       Some \<lparr>session_id = ''s1'', messages = [sample_message], created_at = 0, last_activity = 0\<rparr>
     \<and> \<not> expired (shd (datetime_clock (sample_world 5)))
           \<lparr>session_id = ''s1'', messages = [sample_message], created_at = 0, last_activity = 0\<rparr>)
   \<and> fst (get_or_create_conversation (sample_world 5) (Some ''s1'')) = ''s1''
   \<and> conversations (snd (get_or_create_conversation (sample_world 5) (Some ''s1''))) ''s1'' =
       Some \<lparr>session_id = ''s1'', messages = [sample_message], created_at = 0, last_activity = 6\<rparr>
   \<and> (case Some ''nobody'' of
         None \<Rightarrow> True
       | Some s \<Rightarrow> s = [] \<or> (case conversations (sample_world 5) s of
                                 None \<Rightarrow> True
                               | Some c' \<Rightarrow> expired (shd (datetime_clock (sample_world 5))) c'))
   \<and> fst (get_or_create_conversation (sample_world 5) (Some ''nobody'')) = ''u1''
   \<and> conversations (snd (get_or_create_conversation (sample_world 5) (Some ''nobody''))) ''u1'' =
       Some \<lparr>session_id = ''u1'', messages = [], created_at = 6, last_activity = 7\<rparr>"
  using get_or_create_conversation_cases
          [of "''s1''" "sample_world 5"
              "\<lparr>session_id = ''s1'', messages = [sample_message], created_at = 0, last_activity = 0\<rparr>"
              "Some ''nobody''"]
  by (simp add: sample_world_simps expired_def CONVERSATION_TIMEOUT_def)

theorem created_at_last_activity_counterexample:
  "fst (get_or_create_conversation (sample_world 5) None) = ''u1''
   \<and> map_option created_at
        (conversations (snd (get_or_create_conversation (sample_world 5) None)) ''u1'') = Some 6
   \<and> map_option last_activity
        (conversations (snd (get_or_create_conversation (sample_world 5) None)) ''u1'') = Some 7
   \<and> map_option created_at
        (conversations (snd (get_or_create_conversation (sample_world 5) None)) ''u1'') \<noteq>
      map_option last_activity
        (conversations (snd (get_or_create_conversation (sample_world 5) None)) ''u1'')"
proof -
  have create: "get_or_create_conversation (sample_world 5) None =
                  create_conversation (cleanup_expired_conversations (sample_world 5))"
    by (rule get_or_create_create) simp
  show ?thesis
    by (simp add: create create_conversation_fst create_conversation_conversations
          cleanup_rest sample_world_simps)
qed

section \<open>The rendered context\<close>

lemma append_recent_map:
  "append_recent recent context_parts = context_parts @ map context_part recent"
  by (induction recent arbitrary: context_parts) simp_all

lemma context_part_spec_line: "context_part msg = spec_line msg"
  by (simp add: context_part_def spec_line_def truthy_def split: option.splits)

lemma join_Cons:
  "join sep (part # parts) = part @ concat (map (\<lambda>s. sep @ s) parts)"
  by (induction sep "part # parts" arbitrary: part parts rule: join.induct) simp_all

lemma join_blank_line_separated:
  "join [CHR 0x0A, CHR 0x0A] parts = blank_line_separated parts"
proof (cases parts)
  case Nil
  then show ?thesis by (simp add: blank_line_separated_def)
next
  case (Cons first_section rest)
  have "map (\<lambda>s. [CHR 0x0A, CHR 0x0A] @ s) rest = map ((@) [CHR 0x0A, CHR 0x0A]) rest"
    by simp
  then show ?thesis
    unfolding Cons blank_line_separated_def join_Cons by simp
qed

lemma spec_window_drop:
  "spec_window turns = (if length turns > 10 then drop (length turns - 10) turns else turns)"
  by (simp add: spec_window_def rev_take min_def)

text \<open>
  C9: for a stored session without messages \<open>build_conversation_context\<close> returns the
  new text as it is (and the images as they are).
\<close>

theorem build_context_empty_history:
  assumes "conversations w sid = Some c" and "messages c = []"
  shows "build_conversation_context w sid current_prompt current_images =
           (current_prompt, current_images)"
  using assms by (simp add: build_conversation_context_def)

theorem build_context_empty_history_witness:
  "conversations (snd (get_or_create_conversation (sample_world 5) None)) ''u1'' =
     Some \<lparr>session_id = ''u1'', messages = [], created_at = 6, last_activity = 7\<rparr>
   \<and> messages \<lparr>session_id = ''u1'', messages = [], created_at = 6, last_activity = 7\<rparr> = []
   \<and> build_conversation_context (snd (get_or_create_conversation (sample_world 5) None))
        ''u1'' ''What is this?'' None = (''What is this?'', None)"
proof -
  have create: "get_or_create_conversation (sample_world 5) None =
                  create_conversation (cleanup_expired_conversations (sample_world 5))"
    by (rule get_or_create_create) simp
  have stored: "conversations (snd (get_or_create_conversation (sample_world 5) None)) ''u1'' =
     Some \<lparr>session_id = ''u1'', messages = [], created_at = 6, last_activity = 7\<rparr>"
    by (simp add: create create_conversation_conversations cleanup_rest sample_world_simps)
  have empty: "messages \<lparr>session_id = ''u1'', messages = [], created_at = 6, last_activity = 7\<rparr> = []"
    by simp
  show ?thesis
    using stored empty
      build_context_empty_history [OF stored empty, of "''What is this?''" None]
    by simp
qed

lemma context_part_eq: "context_part = spec_line"
  by (rule ext) (rule context_part_spec_line)

text \<open>
  C6: for a stored session with messages the rendered prompt is \<open>spec_render\<close>: the
  preamble, one line for each of the last \<open>min 10 n\<close> messages in their order (role
  name, colon, content, and the marker exactly when the message has a non-empty image
  list), the line of the new text, and the cue line, joined by blank lines. The window
  has \<open>min 10 n\<close> messages and is the end of the history: the messages before it are
  not rendered.
\<close>

theorem build_context_renders_window:
  assumes "conversations w sid = Some c" and "messages c \<noteq> []"
  shows "fst (build_conversation_context w sid new_text current_images) =
           spec_render (messages c) new_text
         \<and> length (spec_window (messages c)) = min 10 (length (messages c))
         \<and> take (length (messages c) - min 10 (length (messages c))) (messages c)
             @ spec_window (messages c) = messages c"
proof -
  have "fst (build_conversation_context w sid new_text current_images) =
           spec_render (messages c) new_text"
    using assms
    by (simp add: build_conversation_context_def Let_def append_recent_map context_part_eq
          join_blank_line_separated spec_window_drop spec_render_def)
  moreover have "length (spec_window (messages c)) = min 10 (length (messages c))"
    by (simp add: spec_window_def)
  moreover have "take (length (messages c) - min 10 (length (messages c))) (messages c)
             @ spec_window (messages c) = messages c"
    by (simp add: spec_window_def rev_take)
  ultimately show ?thesis by blast
qed

theorem build_context_renders_window_witness:
  "conversations long_world ''s1'' =
     Some \<lparr>session_id = ''s1'', messages = long_history, created_at = 0, last_activity = 0\<rparr>
   \<and> messages \<lparr>session_id = ''s1'', messages = long_history, created_at = 0, last_activity = 0\<rparr>
       \<noteq> []
   \<and> fst (build_conversation_context long_world ''s1'' ''next'' None) =
       blank_line_separated
         [preamble, ''Human: hello'', ''Human: hello'', ''Human: hello'', ''Human: hello'',
          ''Human: hello'', ''Human: hello'', ''Human: hello'', ''Human: hello'',
          ''Human: hello'', ''Assistant: a cat [with image(s)]'', ''Human: next'',
          ''Assistant:'']"
proof -
  have stored: "conversations long_world ''s1'' =
     Some \<lparr>session_id = ''s1'', messages = long_history, created_at = 0, last_activity = 0\<rparr>"
    by (simp add: long_world_def)
  have nonempty:
    "messages \<lparr>session_id = ''s1'', messages = long_history, created_at = 0, last_activity = 0\<rparr>
       \<noteq> []"
    by (simp add: long_history_def)
  show ?thesis
    using stored nonempty
      build_context_renders_window [OF stored nonempty, of "''next''" None]
    by (simp add: long_history_def spec_render_def spec_window_def spec_line_def
          sample_message_def first_message_def pictured_message_def)
qed

section \<open>Appending messages\<close>

lemma add_messages_stored:
  assumes "conversations w sid = Some c"
  shows "\<exists>c'. conversations (add_messages w sid turns) sid = Some c'
              \<and> messages c' = messages c @ stamped (datetime_clock w) turns"
  using assms
proof (induction turns arbitrary: w c)
  case Nil
  then show ?case by simp
next
  case (Cons turn turns)
  obtain r text_arg ims where turn: "turn = (r, text_arg, ims)"
    by (cases turn) auto
  let ?w = "add_message_to_conversation w sid r text_arg ims"
  let ?c = "c\<lparr>messages := messages c @
                   [\<lparr>role = r, content = text_arg, timestamp = shd (datetime_clock w), images = ims\<rparr>],
               last_activity := shd (stl (datetime_clock w))\<rparr>"
  have stored: "conversations ?w sid = Some ?c"
    using Cons.prems by (simp add: add_message_conversations)
  have clock: "datetime_clock ?w = stl (stl (datetime_clock w))"
    using Cons.prems by (simp add: add_message_rest)
  from Cons.IH [OF stored] show ?case
    by (simp add: turn clock)
qed

lemma stamped_turns:
  "map (\<lambda>m. (role m, content m, images m)) (stamped clock turns) = turns"
  by (induction clock turns rule: stamped.induct) simp_all

text \<open>
  C8: after any sequence of \<open>add_message_to_conversation\<close> calls on a stored session,
  \<open>get_conversation\<close> returns the messages the session had, unchanged, followed by
  one message for each call, in the order of the calls, with the role, content and images
  of the call.
\<close>

theorem appended_messages_in_order:
  assumes "conversations w sid = Some c"
  shows "get_conversation (add_messages w sid turns) sid =
           Inr \<lparr>cr_session_id = sid,
                cr_messages = messages c @ stamped (datetime_clock w) turns,
                total_messages = length (messages c) + length turns\<rparr>
         \<and> map (\<lambda>m. (role m, content m, images m)) (stamped (datetime_clock w) turns) = turns"
proof -
  obtain c' where c': "conversations (add_messages w sid turns) sid = Some c'"
      "messages c' = messages c @ stamped (datetime_clock w) turns"
    using add_messages_stored [OF assms] by blast
  have "length (stamped (datetime_clock w) turns) = length turns"
    using stamped_turns [of "datetime_clock w" turns] by (metis length_map)
  with c' show ?thesis
    by (simp add: get_conversation_def stamped_turns)
qed

theorem appended_messages_in_order_witness:
  "conversations (sample_world 5) ''s1'' =
     Some \<lparr>session_id = ''s1'', messages = [sample_message], created_at = 0, last_activity = 0\<rparr>
   \<and> get_conversation
        (add_messages (sample_world 5) ''s1''
           [(''user'', ''b'', None), (''assistant'', ''a'', None), (''user'', ''b'', None)]) ''s1'' =
       Inr \<lparr>cr_session_id = ''s1'',
            cr_messages =
              [sample_message,
               \<lparr>role = ''user'', content = ''b'', timestamp = 5, images = None\<rparr>,
               \<lparr>role = ''assistant'', content = ''a'', timestamp = 7, images = None\<rparr>,
               \<lparr>role = ''user'', content = ''b'', timestamp = 9, images = None\<rparr>],
            total_messages = 4\<rparr>"
proof -
  have stored: "conversations (sample_world 5) ''s1'' =
     Some \<lparr>session_id = ''s1'', messages = [sample_message], created_at = 0, last_activity = 0\<rparr>"
    by (simp add: sample_world_simps)
  show ?thesis
    using stored
      appended_messages_in_order [OF stored,
        of "[(''user'', ''b'', None), (''assistant'', ''a'', None), (''user'', ''b'', None)]"]
    by (simp add: sample_world_simps)
qed

section \<open>The handlers\<close>

lemma time_time_simps:
  "fst (time_time w) = shd (time_clock w)"
  "conversations (snd (time_time w)) = conversations w"
  "datetime_clock (snd (time_time w)) = datetime_clock w"
  "uuid_source (snd (time_time w)) = uuid_source w"
  "time_clock (snd (time_time w)) = stl (time_clock w)"
  "posted (snd (time_time w)) = posted w"
  by (simp_all add: time_time_def)


lemma generate_response_rest:
  "conversations (snd (generate_response ext w p ims t m)) = conversations w"
  "datetime_clock (snd (generate_response ext w p ims t m)) = datetime_clock w"
  "uuid_source (snd (generate_response ext w p ims t m)) = uuid_source w"
  "time_clock (snd (generate_response ext w p ims t m)) = time_clock w"
  by (simp_all add: generate_response_def Let_def
        split: post_result.splits sum.splits option.splits)

lemma failure_response_simps:
  "fst (failure_response w start_time e sid_field) =
     \<lparr>success = False, response = None, error = Some e,
      processing_time = Some (shd (time_clock w) - start_time), api_session_id = sid_field\<rparr>"
  "conversations (snd (failure_response w start_time e sid_field)) = conversations w"
  "datetime_clock (snd (failure_response w start_time e sid_field)) = datetime_clock w"
  "uuid_source (snd (failure_response w start_time e sid_field)) = uuid_source w"
  "posted (snd (failure_response w start_time e sid_field)) = posted w"
  by (simp_all add: failure_response_def time_time_def)

lemma success_response_simps:
  "fst (success_response w start_time sid response_text) =
     \<lparr>success = True, response = Some response_text, error = None,
      processing_time = Some (shd (time_clock w) - start_time), api_session_id = Some sid\<rparr>"
  "conversations (snd (success_response w start_time sid response_text)) =
     conversations (add_message_to_conversation w sid ''assistant'' response_text None)"
  "posted (snd (success_response w start_time sid response_text)) = posted w"
  by (simp_all add: success_response_def time_time_def add_message_rest Let_def)







lemma process_frames_error:
  "process_frames ext i frames acc = Inl e \<Longrightarrow>
     \<exists>k e'. e = HTTPException 400 (Error_processing_frame k e')"
  by (induction frames arbitrary: i acc) (auto split: sum.splits)

lemma process_frames_all_encode:
  "\<forall>frame \<in> set frames. \<exists>img image_b64.
      process_uploaded_file ext frame = Inr img \<and> image_to_base64 ext img = Inr image_b64 \<Longrightarrow>
     \<exists>image_b64_list. process_frames ext i frames acc = Inr image_b64_list"
  by (induction frames arbitrary: i acc) auto

lemma generate_response_error:
  "fst (generate_response ext w p ims t m) = Inl e \<Longrightarrow>
     e = HTTPException 504 Request_timeout \<or> (\<exists>e'. e = HTTPException 500 (Generation_error e'))"
  by (auto simp: generate_response_def Let_def
        split: post_result.splits sum.splits option.splits if_splits)

lemma generate_response_answer:
  "post_generate ext
     \<lparr>p_model = MODEL_NAME, p_prompt = p, p_stream = False, p_temperature = t,
      p_num_predict = m, p_images = (if truthy ims then ims else None)\<rparr>
     = Response 200 body_text (Inr (Some r)) \<Longrightarrow>
   fst (generate_response ext w p ims t m) = Inr r"
  by (simp add: generate_response_def Let_def)

lemma video_refused:
  assumes "check_frames frames = Some e"
  shows "fst (video_frames_prompt ext w p frame_rate t m sid_opt frames) =
           \<lparr>success = False, response = None, error = Some e,
            processing_time = Some (shd (stl (time_clock w)) - shd (time_clock w)),
            api_session_id = sid_opt\<rparr>"
    and "conversations (snd (video_frames_prompt ext w p frame_rate t m sid_opt frames)) =
           conversations w"
    and "datetime_clock (snd (video_frames_prompt ext w p frame_rate t m sid_opt frames)) =
           datetime_clock w"
    and "uuid_source (snd (video_frames_prompt ext w p frame_rate t m sid_opt frames)) =
           uuid_source w"
    and "posted (snd (video_frames_prompt ext w p frame_rate t m sid_opt frames)) = posted w"
  using assms
  by (simp_all add: video_frames_prompt_def split_def failure_response_simps time_time_simps)

lemma video_passed_error:
  assumes "check_frames frames = None"
  shows "error (fst (video_frames_prompt ext w p frame_rate t m sid_opt frames)) \<noteq>
           Some (HTTPException 400 No_frames_provided)
         \<and> error (fst (video_frames_prompt ext w p frame_rate t m sid_opt frames)) \<noteq>
           Some (HTTPException 400 Too_many_frames)"
proof (cases "process_frames ext 0 frames []")
  case (Inl e)
  then obtain k e' where "e = HTTPException 400 (Error_processing_frame k e')"
    using process_frames_error by blast
  with assms Inl show ?thesis
    by (simp add: video_frames_prompt_def split_def Let_def failure_response_simps)
next
  case (Inr image_b64_list)
  with assms show ?thesis
    by (auto simp: video_frames_prompt_def split_def Let_def failure_response_simps
          success_response_simps split: sum.splits dest!: generate_response_error)
qed

lemma video_answered:
  assumes "check_frames frames = None"
      and "\<forall>frame \<in> set frames. \<exists>img image_b64.
             process_uploaded_file ext frame = Inr img \<and> image_to_base64 ext img = Inr image_b64"
      and "\<forall>body. post_generate ext body = Response 200 body_text (Inr (Some r))"
  shows "success (fst (video_frames_prompt ext w p frame_rate t m sid_opt frames))"
proof -
  obtain image_b64_list where "process_frames ext 0 frames [] = Inr image_b64_list"
    using process_frames_all_encode [OF assms(2)] by blast
  with assms(1) show ?thesis
    by (simp add: video_frames_prompt_def split_def Let_def success_response_simps
          generate_response_answer [OF assms(3) [rule_format]])
qed

text \<open>
  C4: a video request with no frame or with more than 30 frames is answered with the
  failure envelope carrying the 400 exception, and leaves the conversations (keys,
  messages and \<open>last_activity\<close> of every session), the clock, the id source and the
  posted requests as they were. A request with exactly 30 frames passes the check: its
  answer never carries one of the two frame-count exceptions, and it succeeds when every
  frame opens (and converts) and encodes and the backend answers.
\<close>

theorem frame_count_limits:
  "(frames = [] \<or> length frames > 30 \<longrightarrow>
      conversations (snd (video_frames_prompt ext w p frame_rate t m sid_opt frames)) =
        conversations w
      \<and> datetime_clock (snd (video_frames_prompt ext w p frame_rate t m sid_opt frames)) =
        datetime_clock w
      \<and> uuid_source (snd (video_frames_prompt ext w p frame_rate t m sid_opt frames)) =
        uuid_source w
      \<and> posted (snd (video_frames_prompt ext w p frame_rate t m sid_opt frames)) = posted w
      \<and> success (fst (video_frames_prompt ext w p frame_rate t m sid_opt frames)) = False
      \<and> error (fst (video_frames_prompt ext w p frame_rate t m sid_opt frames)) =
          Some (HTTPException 400 (if frames = [] then No_frames_provided else Too_many_frames)))
   \<and> (length frames = 30 \<longrightarrow>
        check_frames frames = None
        \<and> error (fst (video_frames_prompt ext w p frame_rate t m sid_opt frames)) \<noteq>
            Some (HTTPException 400 No_frames_provided)
        \<and> error (fst (video_frames_prompt ext w p frame_rate t m sid_opt frames)) \<noteq>
            Some (HTTPException 400 Too_many_frames))
   \<and> (length frames = 30
        \<and> (\<forall>frame \<in> set frames. \<exists>img image_b64.
               process_uploaded_file ext frame = Inr img
               \<and> image_to_base64 ext img = Inr image_b64)
        \<and> (\<forall>body. post_generate ext body = Response 200 body_text (Inr (Some r))) \<longrightarrow>
        success (fst (video_frames_prompt ext w p frame_rate t m sid_opt frames)))"
proof (intro conjI impI)
  assume bad: "frames = [] \<or> length frames > 30"
  then have refused: "check_frames frames =
      Some (HTTPException 400 (if frames = [] then No_frames_provided else Too_many_frames))"
    by (auto simp: check_frames_def)
  show "conversations (snd (video_frames_prompt ext w p frame_rate t m sid_opt frames)) =
          conversations w"
    by (rule video_refused(2) [OF refused])
  show "datetime_clock (snd (video_frames_prompt ext w p frame_rate t m sid_opt frames)) =
          datetime_clock w"
    by (rule video_refused(3) [OF refused])
  show "uuid_source (snd (video_frames_prompt ext w p frame_rate t m sid_opt frames)) =
          uuid_source w"
    by (rule video_refused(4) [OF refused])
  show "posted (snd (video_frames_prompt ext w p frame_rate t m sid_opt frames)) = posted w"
    by (rule video_refused(5) [OF refused])
  show "success (fst (video_frames_prompt ext w p frame_rate t m sid_opt frames)) = False"
    by (simp add: video_refused(1) [OF refused])
  show "error (fst (video_frames_prompt ext w p frame_rate t m sid_opt frames)) =
          Some (HTTPException 400 (if frames = [] then No_frames_provided else Too_many_frames))"
    by (simp add: video_refused(1) [OF refused])
next
  assume thirty: "length frames = 30"
  then show passed: "check_frames frames = None"
    by (auto simp: check_frames_def)
  show "error (fst (video_frames_prompt ext w p frame_rate t m sid_opt frames)) \<noteq>
          Some (HTTPException 400 No_frames_provided)"
    using video_passed_error [OF passed] by blast
  show "error (fst (video_frames_prompt ext w p frame_rate t m sid_opt frames)) \<noteq>
          Some (HTTPException 400 Too_many_frames)"
    using video_passed_error [OF passed] by blast
next
  assume ok: "length frames = 30
        \<and> (\<forall>frame \<in> set frames. \<exists>img image_b64.
               process_uploaded_file ext frame = Inr img
               \<and> image_to_base64 ext img = Inr image_b64)
        \<and> (\<forall>body. post_generate ext body = Response 200 body_text (Inr (Some r)))"
  then have "check_frames frames = None"
    by (auto simp: check_frames_def)
  with ok show "success (fst (video_frames_prompt ext w p frame_rate t m sid_opt frames))"
    by (intro video_answered) auto
qed

theorem frame_count_limits_witness:
  "success (fst (video_frames_prompt (sample_ext (Response 200 [] (Inr (Some ''ok''))))
      (sample_world 5) ''what happens?'' ''1.0'' 0.7 2048 (Some ''s1'') [])) = False
   \<and> error (fst (video_frames_prompt (sample_ext (Response 200 [] (Inr (Some ''ok''))))
      (sample_world 5) ''what happens?'' ''1.0'' 0.7 2048 (Some ''s1'') [])) =
       Some (HTTPException 400 No_frames_provided)
   \<and> conversations (snd (video_frames_prompt (sample_ext (Response 200 [] (Inr (Some ''ok''))))
      (sample_world 5) ''what happens?'' ''1.0'' 0.7 2048 (Some ''s1'')
      (replicate 31 (Opens sample_image)))) = conversations (sample_world 5)
   \<and> error (fst (video_frames_prompt (sample_ext (Response 200 [] (Inr (Some ''ok''))))
      (sample_world 5) ''what happens?'' ''1.0'' 0.7 2048 (Some ''s1'')
      (replicate 31 (Opens sample_image)))) = Some (HTTPException 400 Too_many_frames)
   \<and> check_frames (replicate 30 (Opens sample_image)) = None
   \<and> success (fst (video_frames_prompt (sample_ext (Response 200 [] (Inr (Some ''ok''))))
      (sample_world 5) ''what happens?'' ''1.0'' 0.7 2048 (Some ''s1'')
      (replicate 30 (Opens sample_image))))"
  using
    frame_count_limits [where frames = "[]" and w = "sample_world 5"
      and ext = "sample_ext (Response 200 [] (Inr (Some ''ok'')))" and p = "''what happens?''"
      and frame_rate = "''1.0''" and t = "0.7" and m = 2048 and sid_opt = "Some ''s1''"]
    frame_count_limits [where frames = "replicate 31 (Opens sample_image)"
      and w = "sample_world 5"
      and ext = "sample_ext (Response 200 [] (Inr (Some ''ok'')))" and p = "''what happens?''"
      and frame_rate = "''1.0''" and t = "0.7" and m = 2048 and sid_opt = "Some ''s1''"]
    frame_count_limits [where frames = "replicate 30 (Opens sample_image)"
      and w = "sample_world 5"
      and ext = "sample_ext (Response 200 [] (Inr (Some ''ok'')))" and p = "''what happens?''"
      and frame_rate = "''1.0''" and t = "0.7" and m = 2048 and sid_opt = "Some ''s1''"
      and body_text = "[]" and r = "''ok''"]
  by (simp add: sample_ext_def sample_image_def process_uploaded_file_def image_to_base64_def)


section \<open>What the handlers answer on failures\<close>

lemma get_or_create_None:
  "get_or_create_conversation w None = create_conversation (cleanup_expired_conversations w)"
  by (rule get_or_create_create) simp

lemma text_prompt_session_id:
  "api_session_id (fst (text_prompt ext w request)) =
     (if success (fst (text_prompt ext w request))
      then Some (fst (get_or_create_conversation (snd (time_time w)) (req_session_id request)))
      else req_session_id request)"
  by (simp add: text_prompt_def split_def Let_def failure_response_simps
        success_response_simps split: sum.splits)

lemma image_prompt_session_id:
  "api_session_id (fst (image_prompt ext w p t m sid_opt upload)) =
     Some (fst (get_or_create_conversation (snd (time_time w)) sid_opt))"
  by (simp add: image_prompt_def split_def Let_def failure_response_simps
        success_response_simps split: sum.splits)

lemma video_frames_prompt_session_id:
  "check_frames frames = None \<Longrightarrow>
   api_session_id (fst (video_frames_prompt ext w p frame_rate t m sid_opt frames)) =
     Some (fst (get_or_create_conversation (snd (time_time w)) sid_opt))"
  by (simp add: video_frames_prompt_def split_def Let_def failure_response_simps
        success_response_simps split: sum.splits)

lemma text_prompt_failure_keeps_user_turn:
  assumes "\<not> success (fst (text_prompt ext w request))"
  shows "conversations (snd (text_prompt ext w request)) =
           conversations
             (add_message_to_conversation
                (snd (get_or_create_conversation (snd (time_time w)) (req_session_id request)))
                (fst (get_or_create_conversation (snd (time_time w)) (req_session_id request)))
                ''user'' (prompt request) None)"
  using assms
  by (simp add: text_prompt_def split_def Let_def failure_response_simps
        success_response_simps generate_response_rest split: sum.splits)

text \<open>
  C2, at a text request without session id while the backend times out: a session
  \<open>''u1''\<close> is created and keeps the user turn without an assistant turn, the envelope
  has \<open>success = False\<close> and the elapsed time, but its session id is that of the request,
  \<open>None\<close>, not the resolved \<open>''u1''\<close>. \<open>image_prompt\<close> answers the same failure with the
  resolved id.
\<close>

theorem text_prompt_failure_envelope:
  "fst (text_prompt (sample_ext Post_timeout) (sample_world 5)
          \<lparr>prompt = ''hi'', temperature = Some 0.7, max_tokens = Some 2048,
           req_session_id = None\<rparr>) =
     \<lparr>success = False, response = None, error = Some (HTTPException 504 Request_timeout),
      processing_time = Some 1, api_session_id = None\<rparr>
   \<and> conversations (snd (text_prompt (sample_ext Post_timeout) (sample_world 5)
          \<lparr>prompt = ''hi'', temperature = Some 0.7, max_tokens = Some 2048,
           req_session_id = None\<rparr>)) ''u1'' =
       Some \<lparr>session_id = ''u1'',
             messages = [\<lparr>role = ''user'', content = ''hi'', timestamp = 8, images = None\<rparr>],
             created_at = 6, last_activity = 9\<rparr>
   \<and> api_session_id (fst (image_prompt (sample_ext Post_timeout) (sample_world 5)
          ''hi'' 0.7 2048 None (Opens sample_image))) = Some ''u1''"
  by (simp add: text_prompt_def image_prompt_def split_def Let_def get_or_create_None
        time_time_simps create_conversation_fst create_conversation_conversations
        create_conversation_rest cleanup_rest cleanup_conversations add_message_conversations
        add_message_rest generate_response_def failure_response_simps sample_world_simps
        sample_ext_def build_conversation_context_def process_uploaded_file_def
        image_to_base64_def sample_image_def)

text \<open>
  C3, at four structurally invalid requests: no frame, 31 frames, an upload that does not
  open, a second frame that does not open. Each is answered with the envelope
  (\<open>success = False\<close>, the 400 exception as error, elapsed time, session id); the
  exception does not leave the handler. The last two requests have created the session
  \<open>''u1''\<close> before failing.
\<close>

theorem invalid_input_envelope:
  "fst (video_frames_prompt (sample_ext Post_timeout) (sample_world 5) ''what happens?''
          ''1.0'' 0.7 2048 None []) =
     \<lparr>success = False, response = None, error = Some (HTTPException 400 No_frames_provided),
      processing_time = Some 1, api_session_id = None\<rparr>
   \<and> fst (video_frames_prompt (sample_ext Post_timeout) (sample_world 5) ''what happens?''
          ''1.0'' 0.7 2048 None (replicate 31 (Opens sample_image))) =
     \<lparr>success = False, response = None, error = Some (HTTPException 400 Too_many_frames),
      processing_time = Some 1, api_session_id = None\<rparr>
   \<and> fst (image_prompt (sample_ext Post_timeout) (sample_world 5) ''what is this?''
          0.7 2048 None (Open_fails ''cannot identify image file'')) =
     \<lparr>success = False, response = None,
      error = Some (HTTPException 400
                (Invalid_image_file (Exception ''cannot identify image file''))),
      processing_time = Some 1, api_session_id = Some ''u1''\<rparr>
   \<and> fst (video_frames_prompt (sample_ext Post_timeout) (sample_world 5) ''what happens?''
          ''1.0'' 0.7 2048 None [Opens sample_image, Open_fails ''cannot identify image file'']) =
     \<lparr>success = False, response = None,
      error = Some (HTTPException 400 (Error_processing_frame 2
                (HTTPException 400
                   (Invalid_image_file (Exception ''cannot identify image file''))))),
      processing_time = Some 1, api_session_id = Some ''u1''\<rparr>
   \<and> conversations (snd (video_frames_prompt (sample_ext Post_timeout) (sample_world 5)
          ''what happens?'' ''1.0'' 0.7 2048 None
          [Opens sample_image, Open_fails ''cannot identify image file''])) ''u1'' =
       Some \<lparr>session_id = ''u1'', messages = [], created_at = 6, last_activity = 7\<rparr>"
  by (simp add: video_frames_prompt_def image_prompt_def split_def Let_def get_or_create_None
        time_time_simps create_conversation_fst create_conversation_conversations
        create_conversation_rest cleanup_rest cleanup_conversations
        failure_response_simps sample_world_simps check_frames_def
        process_uploaded_file_def image_to_base64_def sample_ext_def sample_image_def)

text \<open>
  An upload that opens but does not encode: \<open>image_prompt\<close> answers with the envelope
  carrying the encoder's exception, \<open>video_frames_prompt\<close> with the 400 exception
  naming the frame; the session \<open>''u1''\<close> exists by then, without any turn, and nothing
  has been posted.
\<close>

lemma encode_failure_envelope:
  "fst (image_prompt (sample_ext Post_timeout) (sample_world 5) ''what is this?''
          0.7 2048 None (Opens truncated_image)) =
     \<lparr>success = False, response = None, error = Some (Exception ''image file is truncated''),
      processing_time = Some 1, api_session_id = Some ''u1''\<rparr>
   \<and> conversations (snd (image_prompt (sample_ext Post_timeout) (sample_world 5)
          ''what is this?'' 0.7 2048 None (Opens truncated_image))) ''u1'' =
       Some \<lparr>session_id = ''u1'', messages = [], created_at = 6, last_activity = 7\<rparr>
   \<and> posted (snd (image_prompt (sample_ext Post_timeout) (sample_world 5)
          ''what is this?'' 0.7 2048 None (Opens truncated_image))) = []
   \<and> fst (video_frames_prompt (sample_ext Post_timeout) (sample_world 5) ''what happens?''
          ''1.0'' 0.7 2048 None [Opens sample_image, Opens truncated_image]) =
     \<lparr>success = False, response = None,
      error = Some (HTTPException 400 (Error_processing_frame 2
                (Exception ''image file is truncated''))),
      processing_time = Some 1, api_session_id = Some ''u1''\<rparr>"
  by (simp add: video_frames_prompt_def image_prompt_def split_def Let_def get_or_create_None
        time_time_simps create_conversation_fst create_conversation_conversations
        create_conversation_rest cleanup_rest cleanup_conversations
        failure_response_simps sample_world_simps check_frames_def
        process_uploaded_file_def image_to_base64_def sample_ext_def sample_image_def
        truncated_image_def)

end
